theory Spec2Isabelle
  imports Main
begin

section \<open>Values that travel in requests and responses\<close>

text \<open>
  The service (\<^verbatim>\<open>server.mjs\<close>, \<^verbatim>\<open>routes/Words.js\<close>, \<^verbatim>\<open>models/Word.js\<close>) parses
  request bodies with \<^verbatim>\<open>express.json()\<close> and answers with \<^verbatim>\<open>res.json(...)\<close>.
  A JSON value is modelled as a datatype; numbers are the integral ones, objects keep
  their keys in order.
\<close>

datatype json =
    JNull
  | JBool bool
  | JNum int
  | JStr string
  | JArr "json list"
  | JObj "(string \<times> json) list"

text \<open>
  \<^verbatim>\<open>express.json()\<close> in its default strict mode accepts only an object or an array at
  the top level, and leaves \<^verbatim>\<open>req.body\<close> the empty object when the request carries no
  JSON body. The type of a request body therefore has exactly these two shapes.
\<close>

datatype req_body =
    BodyObject "(string \<times> json) list"
  | BodyArray "json list"

text \<open>
  \<^verbatim>\<open>const { word } = req.body;\<close> reads the property \<^verbatim>\<open>word\<close>; \<open>None\<close> stands for
  \<^verbatim>\<open>undefined\<close> (the property is absent, as it always is on an array).
\<close>

fun body_word :: "req_body \<Rightarrow> json option" where
  "body_word (BodyObject props) = map_of props ''word''"
| "body_word (BodyArray _) = None"

text \<open>
  JavaScript truthiness, as tested by \<^verbatim>\<open>if (!word)\<close>: \<^verbatim>\<open>undefined\<close>, \<^verbatim>\<open>null\<close>,
  \<^verbatim>\<open>false\<close>, the number zero and the empty string are falsy; every array and every
  object is truthy.
\<close>

fun truthy :: "json option \<Rightarrow> bool" where
  "truthy None = False"
| "truthy (Some JNull) = False"
| "truthy (Some (JBool b)) = b"
| "truthy (Some (JNum n)) = (n \<noteq> 0)"
| "truthy (Some (JStr s)) = (s \<noteq> [])"
| "truthy (Some (JArr _)) = True"
| "truthy (Some (JObj _)) = True"

text \<open>Decimal rendering of an integer, as \<^verbatim>\<open>Number.prototype.toString\<close> gives it.\<close>

fun digits :: "nat \<Rightarrow> string" where
  "digits n =
     (if n < 10 then [''0123456789'' ! n]
      else digits (n div 10) @ [''0123456789'' ! (n mod 10)])"

declare digits.simps [simp del]

definition Number_toString :: "int \<Rightarrow> string" where
  "Number_toString n = (if n < 0 then CHR ''-'' # digits (nat (- n)) else digits (nat n))"

definition Boolean_toString :: "bool \<Rightarrow> string" where
  "Boolean_toString b = (if b then ''true'' else ''false'')"

section \<open>The Word model and the document store\<close>

text \<open>
  \<^verbatim>\<open>models/Word.js\<close>:
  \<^verbatim>\<open>const wordSchema = new mongoose.Schema({ value: { required: true, type: String } });\<close>
  The schema has one path, \<^verbatim>\<open>value\<close>, of type String and required. The object-document
  mapper casts what is assigned to the path to a string: a string is kept, a number or a
  boolean is rendered by its \<^verbatim>\<open>toString\<close>, an object that carries a non-empty string
  \<^verbatim>\<open>_id\<close> is replaced by that \<^verbatim>\<open>_id\<close>, \<^verbatim>\<open>null\<close> and \<^verbatim>\<open>undefined\<close> leave the path
  unset, and an array or any other object is a cast error.
\<close>

datatype cast_result = Cast "string option" | CastFailed

fun castString :: "json option \<Rightarrow> cast_result" where
  "castString None = Cast None"
| "castString (Some JNull) = Cast None"
| "castString (Some (JStr s)) = Cast (Some s)"
| "castString (Some (JNum n)) = Cast (Some (Number_toString n))"
| "castString (Some (JBool b)) = Cast (Some (Boolean_toString b))"
| "castString (Some (JArr _)) = CastFailed"
| "castString (Some (JObj props)) =
     (case map_of props ''_id'' of
        Some (JStr s) \<Rightarrow> if s \<noteq> [] then Cast (Some s) else CastFailed
      | _ \<Rightarrow> CastFailed)"

text \<open>The \<^verbatim>\<open>required: true\<close> validator of a String path: a string of positive length.\<close>

fun checkRequired :: "string option \<Rightarrow> bool" where
  "checkRequired None = False"
| "checkRequired (Some s) = (s \<noteq> [])"

datatype validation_failure = CastError | RequiredError

datatype error =
    ValidationError validation_failure
  | DriverError string

text \<open>
  A record of the collection: the identifier the mapper assigned (an ObjectId, here the
  value of a counter) and the \<^verbatim>\<open>value\<close> field.
\<close>

record word_record =
  doc_id :: nat
  doc_value :: string

text \<open>A document built by \<^verbatim>\<open>new Word({ value: word })\<close>, not yet saved.\<close>

record word_document =
  new_id :: nat
  new_value :: cast_result

datatype store_call = SaveCall nat | FindCall

text \<open>
  The state the handlers act on: the collection in the order the store returns it, the
  next identifier, the failure (if any) with which the store answers every call while it
  lasts (unreachable store, driver exception), the lines written by \<^verbatim>\<open>console.error\<close>,
  and the persistence calls made so far.
\<close>

record world =
  docs :: "word_record list"
  next_id :: nat
  fault :: "string option"
  console :: "(string \<times> error) list"
  calls :: "store_call list"

definition Word_new :: "json option \<Rightarrow> world \<Rightarrow> word_document \<times> world" where
  "Word_new v s =
     (\<lparr>new_id = next_id s, new_value = castString v\<rparr>, s\<lparr>next_id := Suc (next_id s)\<rparr>)"

text \<open>
  \<^verbatim>\<open>await newWord.save()\<close>: the document is validated against the schema first; a valid
  document is then inserted, unless the store fails. A failed call leaves the collection
  as it was.
\<close>

definition save :: "word_document \<Rightarrow> world \<Rightarrow> (error + unit) \<times> world" where
  "save d s =
     (let s1 = s\<lparr>calls := calls s @ [SaveCall (new_id d)]\<rparr> in
      case new_value d of
        CastFailed \<Rightarrow> (Inl (ValidationError CastError), s1)
      | Cast None \<Rightarrow> (Inl (ValidationError RequiredError), s1)
      | Cast (Some v) \<Rightarrow>
          if \<not> checkRequired (Some v) then (Inl (ValidationError RequiredError), s1)
          else (case fault s of
                  Some msg \<Rightarrow> (Inl (DriverError msg), s1)
                | None \<Rightarrow>
                    (Inr (),
                     s1\<lparr>docs := docs s @ [\<lparr>doc_id = new_id d, doc_value = v\<rparr>]\<rparr>)))"

text \<open>\<^verbatim>\<open>await Word.find()\<close>: every record of the collection, or the store's failure.\<close>

definition find_all :: "world \<Rightarrow> (error + word_record list) \<times> world" where
  "find_all s =
     (let s1 = s\<lparr>calls := calls s @ [FindCall]\<rparr> in
      case fault s of
        Some msg \<Rightarrow> (Inl (DriverError msg), s1)
      | None \<Rightarrow> (Inr (docs s), s1))"

text \<open>
  How \<^verbatim>\<open>res.json\<close> serialises a record: the identifier under the key \<^verbatim>\<open>_id\<close> as 24
  hexadecimal digits, the \<^verbatim>\<open>value\<close>, and the version key.
\<close>

fun hex :: "nat \<Rightarrow> nat \<Rightarrow> string" where
  "hex 0 n = []"
| "hex (Suc k) n = hex k (n div 16) @ [''0123456789abcdef'' ! (n mod 16)]"

definition toHexString :: "nat \<Rightarrow> string" where
  "toHexString n = hex 24 n"

definition toJSON :: "word_record \<Rightarrow> json" where
  "toJSON d =
     JObj [(''_id'', JStr (toHexString (doc_id d))),
           (''value'', JStr (doc_value d)),
           (''__v'', JNum 0)]"

section \<open>The request handlers\<close>

datatype res_body = JsonBody json | PageBody string

record response =
  status :: nat
  body :: res_body

definition HTTP_OK :: nat where
  "HTTP_OK = 200"

definition HTTP_BAD_REQUEST :: nat where
  "HTTP_BAD_REQUEST = 400"

definition HTTP_NOT_FOUND :: nat where
  "HTTP_NOT_FOUND = 404"

definition HTTP_INTERNAL_SERVER_ERROR :: nat where
  "HTTP_INTERNAL_SERVER_ERROR = 500"

definition res_json :: "nat \<Rightarrow> json \<Rightarrow> response" where
  "res_json st j = \<lparr>status = st, body = JsonBody j\<rparr>"

definition console_error :: "string \<Rightarrow> error \<Rightarrow> world \<Rightarrow> world" where
  "console_error msg err s = s\<lparr>console := console s @ [(msg, err)]\<rparr>"

text \<open>
  \<^verbatim>\<open>router.post('/addWord', async (req, res) => { ... })\<close> of \<^verbatim>\<open>routes/Words.js\<close>:
  the presence check, then construction and save inside \<^verbatim>\<open>try\<close>, the \<^verbatim>\<open>catch\<close> logging
  the error and answering 500.
\<close>

definition addWord :: "req_body \<Rightarrow> world \<Rightarrow> response \<times> world" where
  "addWord b s =
     (let word = body_word b in
      if \<not> truthy word then
        (res_json HTTP_BAD_REQUEST (JObj [(''error'', JStr ''Word is required'')]), s)
      else
        (let (newWord, s1) = Word_new word s;
             (r, s2) = save newWord s1
         in case r of
              Inr _ \<Rightarrow>
                (res_json HTTP_OK (JObj [(''message'', JStr ''Word added successfully'')]), s2)
            | Inl err \<Rightarrow>
                (res_json HTTP_INTERNAL_SERVER_ERROR (JObj [(''error'', JStr ''Error adding word'')]),
                 console_error ''Error adding word:'' err s2)))"

text \<open>\<^verbatim>\<open>router.get('/viewWords', async (req, res) => { ... })\<close>.\<close>

definition viewWords :: "world \<Rightarrow> response \<times> world" where
  "viewWords s =
     (let (r, s1) = find_all s
      in case r of
           Inr words \<Rightarrow> (res_json HTTP_OK (JArr (map toJSON words)), s1)
         | Inl err \<Rightarrow>
             (res_json HTTP_INTERNAL_SERVER_ERROR (JObj [(''error'', JStr ''Error fetching words'')]),
              console_error ''Error fetching words:'' err s1))"

section \<open>Routing\<close>

text \<open>
  \<^verbatim>\<open>app.use('/api', wordRoutes)\<close> mounts the router under \<^verbatim>\<open>/api\<close>; the router has
  the two routes \<^verbatim>\<open>post('/addWord')\<close> and \<^verbatim>\<open>get('/viewWords')\<close>. Paths are matched
  without regard to letter case and with an optional trailing slash; a request that no
  route matches is answered 404 with a page naming the method and the path.
\<close>

datatype http_method = GET | POST | PUT | PATCH | DELETE

record request =
  req_method :: http_method
  req_path :: string
  req_body :: req_body

definition toLowerCase_char :: "char \<Rightarrow> char" where
  "toLowerCase_char c =
     (case map_of (zip ''ABCDEFGHIJKLMNOPQRSTUVWXYZ'' ''abcdefghijklmnopqrstuvwxyz'') c of
        Some l \<Rightarrow> l
      | None \<Rightarrow> c)"

definition toLowerCase :: "string \<Rightarrow> string" where
  "toLowerCase p = map toLowerCase_char p"

definition route_matches :: "string \<Rightarrow> string \<Rightarrow> bool" where
  "route_matches pat p =
     (toLowerCase p = toLowerCase pat \<or> toLowerCase p = toLowerCase pat @ ''/'')"

definition strip_mount :: "string \<Rightarrow> string \<Rightarrow> string option" where
  "strip_mount mnt p =
     (let n = length mnt in
      if toLowerCase (take n p) = toLowerCase mnt
         \<and> (length p = n \<or> (n < length p \<and> p ! n = CHR ''/''))
      then Some (drop n p) else None)"

fun method_name :: "http_method \<Rightarrow> string" where
  "method_name GET = ''GET''"
| "method_name POST = ''POST''"
| "method_name PUT = ''PUT''"
| "method_name PATCH = ''PATCH''"
| "method_name DELETE = ''DELETE''"

definition notFound :: "request \<Rightarrow> response" where
  "notFound req =
     \<lparr>status = HTTP_NOT_FOUND,
      body = PageBody (''Cannot '' @ method_name (req_method req) @ '' '' @ req_path req)\<rparr>"

definition wordRoutes :: "request \<Rightarrow> string \<Rightarrow> world \<Rightarrow> response \<times> world" where
  "wordRoutes req p s =
     (if req_method req = POST \<and> route_matches ''/addWord'' p then addWord (req_body req) s
      else if req_method req = GET \<and> route_matches ''/viewWords'' p then viewWords s
      else (notFound req, s))"

definition app :: "request \<Rightarrow> world \<Rightarrow> response \<times> world" where
  "app req s =
     (case strip_mount ''/api'' (req_path req) of
        Some p \<Rightarrow> wordRoutes req p s
      | None \<Rightarrow> (notFound req, s))"

text \<open>A session: requests served one after the other.\<close>

fun serve :: "request list \<Rightarrow> world \<Rightarrow> response list \<times> world" where
  "serve [] s = ([], s)"
| "serve (req # reqs) s =
     (let (r, s1) = app req s; (rs, s2) = serve reqs s1 in (r # rs, s2))"

section \<open>Notions the properties are stated with\<close>

definition json_field :: "string \<Rightarrow> json \<Rightarrow> json option" where
  "json_field k j = (case j of JObj props \<Rightarrow> map_of props k | _ \<Rightarrow> None)"

definition listing_of :: "response \<Rightarrow> json list option" where
  "listing_of r = (case body r of JsonBody (JArr xs) \<Rightarrow> Some xs | _ \<Rightarrow> None)"

definition has_value :: "string \<Rightarrow> json \<Rightarrow> bool" where
  "has_value w j = (json_field ''value'' j = Some (JStr w))"

definition word_request :: "string \<Rightarrow> req_body" where
  "word_request w = BodyObject [(''word'', JStr w)]"

definition values_nonempty :: "world \<Rightarrow> bool" where
  "values_nonempty s = list_all (\<lambda>d. doc_value d \<noteq> []) (docs s)"

definition empty_store :: world where
  "empty_store = \<lparr>docs = [], next_id = 0, fault = None, console = [], calls = []\<rparr>"


section \<open>Facts about the store and the handlers\<close>

lemma digits_nonempty: "digits n \<noteq> []"
  by (subst digits.simps) simp

lemma Number_toString_nonempty: "Number_toString n \<noteq> []"
  by (simp add: Number_toString_def digits_nonempty)

lemma castString_truthy_nonempty:
  "truthy v \<Longrightarrow> castString v = Cast (Some x) \<Longrightarrow> x \<noteq> []"
  by (cases v rule: truthy.cases)
     (auto simp: Number_toString_nonempty Boolean_toString_def split: option.splits json.splits if_splits)

lemma addWord_falsy:
  "\<not> truthy (body_word b) \<Longrightarrow>
   addWord b s = (\<lparr>status = 400, body = JsonBody (JObj [(''error'', JStr ''Word is required'')])\<rparr>, s)"
  by (simp add: addWord_def res_json_def HTTP_BAD_REQUEST_def)

lemma save_docs:
  "save d s = (r, s') \<Longrightarrow>
   (case r of
      Inl _ \<Rightarrow> docs s' = docs s
    | Inr _ \<Rightarrow> (\<exists>v. new_value d = Cast (Some v) \<and> v \<noteq> [] \<and> fault s = None
               \<and> docs s' = docs s @ [\<lparr>doc_id = new_id d, doc_value = v\<rparr>]))"
  by (auto simp: save_def Let_def split: cast_result.splits option.splits if_splits)

lemma save_rest:
  "save d s = (r, s') \<Longrightarrow>
   next_id s' = next_id s \<and> fault s' = fault s \<and> console s' = console s
   \<and> calls s' = calls s @ [SaveCall (new_id d)]"
  by (auto simp: save_def Let_def split: cast_result.splits option.splits if_splits)

lemma addWord_docs:
  "docs (snd (addWord b s)) = docs s
   \<or> (\<exists>d. docs (snd (addWord b s)) = docs s @ [d] \<and> doc_value d \<noteq> []
          \<and> status (fst (addWord b s)) = 200)"
proof (cases "truthy (body_word b)")
  case False
  then show ?thesis by (simp add: addWord_falsy)
next
  case True
  obtain d s1 where n: "Word_new (body_word b) s = (d, s1)" by (cases "Word_new (body_word b) s")
  obtain r s2 where sv: "save d s1 = (r, s2)" by (cases "save d s1")
  have d1: "docs s1 = docs s" using n by (auto simp: Word_new_def)
  show ?thesis
  proof (cases r)
    case (Inl e)
    with save_docs[OF sv] d1 True n sv show ?thesis
      by (simp add: addWord_def console_error_def)
  next
    case (Inr u)
    with save_docs[OF sv] d1 True n sv show ?thesis
      by (auto simp: addWord_def res_json_def HTTP_OK_def)
  qed
qed

lemma viewWords_docs: "docs (snd (viewWords s)) = docs s"
  by (simp add: viewWords_def find_all_def Let_def console_error_def split: option.splits)


lemma Word_new_eq:
  "Word_new v s = (d, s1) \<Longrightarrow>
   d = \<lparr>new_id = next_id s, new_value = castString v\<rparr> \<and> s1 = s\<lparr>next_id := Suc (next_id s)\<rparr>"
  by (auto simp: Word_new_def)

lemma addWord_truthy:
  "truthy (body_word b) \<Longrightarrow> Word_new (body_word b) s = (d, s1) \<Longrightarrow> save d s1 = (r, s2) \<Longrightarrow>
   addWord b s =
     (case r of
        Inr _ \<Rightarrow>
          (\<lparr>status = 200, body = JsonBody (JObj [(''message'', JStr ''Word added successfully'')])\<rparr>, s2)
      | Inl err \<Rightarrow>
          (\<lparr>status = 500, body = JsonBody (JObj [(''error'', JStr ''Error adding word'')])\<rparr>,
           console_error ''Error adding word:'' err s2))"
  by (simp add: addWord_def res_json_def HTTP_OK_def HTTP_INTERNAL_SERVER_ERROR_def split: sum.splits)

lemma body_word_request [simp]: "body_word (word_request w) = Some (JStr w)"
  by (simp add: word_request_def)

lemma addWord_word_ok:
  "w \<noteq> [] \<Longrightarrow> fault s = None \<Longrightarrow>
   addWord (word_request w) s =
     (\<lparr>status = 200, body = JsonBody (JObj [(''message'', JStr ''Word added successfully'')])\<rparr>,
      s\<lparr>next_id := Suc (next_id s),
        calls := calls s @ [SaveCall (next_id s)],
        docs := docs s @ [\<lparr>doc_id = next_id s, doc_value = w\<rparr>]\<rparr>)"
  by (simp add: addWord_def Word_new_def save_def res_json_def HTTP_OK_def)

lemma addWord_word_fault:
  "w \<noteq> [] \<Longrightarrow> fault s = Some msg \<Longrightarrow>
   addWord (word_request w) s =
     (\<lparr>status = 500, body = JsonBody (JObj [(''error'', JStr ''Error adding word'')])\<rparr>,
      s\<lparr>next_id := Suc (next_id s),
        calls := calls s @ [SaveCall (next_id s)],
        console := console s @ [(''Error adding word:'', DriverError msg)]\<rparr>)"
  by (simp add: addWord_def Word_new_def save_def res_json_def HTTP_INTERNAL_SERVER_ERROR_def
      console_error_def)

lemma viewWords_ok:
  "fault s = None \<Longrightarrow>
   viewWords s = (\<lparr>status = 200, body = JsonBody (JArr (map toJSON (docs s)))\<rparr>,
                  s\<lparr>calls := calls s @ [FindCall]\<rparr>)"
  by (simp add: viewWords_def find_all_def res_json_def HTTP_OK_def)

lemma viewWords_fault:
  "fault s = Some msg \<Longrightarrow>
   viewWords s = (\<lparr>status = 500, body = JsonBody (JObj [(''error'', JStr ''Error fetching words'')])\<rparr>,
                  s\<lparr>calls := calls s @ [FindCall],
                    console := console s @ [(''Error fetching words:'', DriverError msg)]\<rparr>)"
  by (simp add: viewWords_def find_all_def res_json_def HTTP_INTERNAL_SERVER_ERROR_def console_error_def)

lemma has_value_toJSON [simp]: "has_value w (toJSON d) \<longleftrightarrow> doc_value d = w"
  by (simp add: has_value_def json_field_def toJSON_def)

section \<open>The claims\<close>

text \<open>
  C1 (amended). For every non-empty string \<open>w\<close>, when the store fails neither the save of
  the insertion nor the retrieval of the listing (\<open>fault s = None\<close>), the insertion
  handler run on \<open>w\<close> followed by the listing handler yields status 200 and an array that
  contains at least one record whose \<^verbatim>\<open>value\<close> equals \<open>w\<close>.
\<close>

theorem insert_then_list:
  assumes "w \<noteq> []" and "fault s = None"
  shows "\<exists>xs. fst (viewWords (snd (addWord (word_request w) s)))
                = \<lparr>status = 200, body = JsonBody (JArr xs)\<rparr>
              \<and> list_ex (has_value w) xs"
  using assms by (simp add: addWord_word_ok viewWords_ok list_ex_iff)

text \<open>The amended statement at the word \<^verbatim>\<open>testword\<close> on the empty store.\<close>

theorem insert_then_list_witness:
  "\<exists>xs. fst (viewWords (snd (addWord (word_request ''testword'') empty_store)))
                = \<lparr>status = 200, body = JsonBody (JArr xs)\<rparr>
              \<and> list_ex (has_value ''testword'') xs"
  using insert_then_list [of "''testword''" empty_store] by (simp add: empty_store_def)

text \<open>
  C1 as stated has no condition on the store. With the store unreachable the insertion is
  answered 500 and stores nothing, and the listing is answered 500 with an error object:
  there is no array in the response.
\<close>

theorem insert_then_list_counterexample:
  "fst (viewWords (snd (addWord (word_request ''testword'') (empty_store\<lparr>fault := Some ''unreachable''\<rparr>))))
     = \<lparr>status = 500, body = JsonBody (JObj [(''error'', JStr ''Error fetching words'')])\<rparr>
   \<and> listing_of (fst (viewWords (snd (addWord (word_request ''testword'')
        (empty_store\<lparr>fault := Some ''unreachable''\<rparr>))))) = None
   \<and> docs (snd (addWord (word_request ''testword'') (empty_store\<lparr>fault := Some ''unreachable''\<rparr>))) = []"
  by (simp add: addWord_word_fault viewWords_fault empty_store_def listing_of_def)


text \<open>Routing of the two requests the routes are written for.\<close>

lemma strip_mount_addWord: "strip_mount ''/api'' ''/api/addWord'' = Some ''/addWord''"
  by (simp add: strip_mount_def toLowerCase_def toLowerCase_char_def)

lemma strip_mount_viewWords: "strip_mount ''/api'' ''/api/viewWords'' = Some ''/viewWords''"
  by (simp add: strip_mount_def toLowerCase_def toLowerCase_char_def)

lemma app_post_addWord:
  "app \<lparr>req_method = POST, req_path = ''/api/addWord'', req_body = b\<rparr> s = addWord b s"
  by (simp add: app_def strip_mount_addWord wordRoutes_def route_matches_def)

lemma app_get_viewWords:
  "app \<lparr>req_method = GET, req_path = ''/api/viewWords'', req_body = b\<rparr> s = viewWords s"
  by (simp add: app_def strip_mount_viewWords wordRoutes_def route_matches_def)

text \<open>
  C2. The claim binds the insertion to \<^verbatim>\<open>GET /api/addWord/{word}\<close>. The router
  registers \<^verbatim>\<open>post('/addWord')\<close> and reads the word from the request body, so the
  request \<^verbatim>\<open>GET /api/addWord/testword\<close> (the one the repository's test sends) matches no
  route: whatever the body and the store, it is answered 404 and the store is left as it
  was.
\<close>

theorem get_addWord_not_routed:
  "app \<lparr>req_method = GET, req_path = ''/api/addWord/testword'', req_body = b\<rparr> s
     = (\<lparr>status = 404, body = PageBody ''Cannot GET /api/addWord/testword''\<rparr>, s)"
  by (simp add: app_def strip_mount_def wordRoutes_def route_matches_def toLowerCase_def
      toLowerCase_char_def notFound_def HTTP_NOT_FOUND_def)

text \<open>
  C3. When the word of an insertion request is missing or the empty string, the handler
  answers status 400 with the body \<^verbatim>\<open>{error: "Word is required"}\<close> and returns the
  state it was given: no record is added, no persistence call is recorded, and nothing is
  written to the error log.
\<close>

theorem addWord_missing_word:
  assumes "body_word b = None \<or> body_word b = Some (JStr [])"
  shows "addWord b s =
           (\<lparr>status = 400, body = JsonBody (JObj [(''error'', JStr ''Word is required'')])\<rparr>, s)"
proof -
  from assms have "\<not> truthy (body_word b)" by auto
  then show ?thesis by (rule addWord_falsy)
qed

theorem addWord_missing_word_witness:
  "addWord (BodyObject []) empty_store =
     (\<lparr>status = 400, body = JsonBody (JObj [(''error'', JStr ''Word is required'')])\<rparr>, empty_store)
   \<and> addWord (BodyObject [(''word'', JStr [])]) empty_store =
     (\<lparr>status = 400, body = JsonBody (JObj [(''error'', JStr ''Word is required'')])\<rparr>, empty_store)"
  using addWord_missing_word [of "BodyObject []" empty_store]
    addWord_missing_word [of "BodyObject [(''word'', JStr [])]" empty_store]
  by simp

text \<open>
  C4. For a non-empty word \<open>w\<close>, when the save of the document built from \<open>w\<close> succeeds,
  the handler answers status 200 with the body \<^verbatim>\<open>{message: "Word added successfully"}\<close>,
  the collection is the old one followed by exactly one new record whose \<^verbatim>\<open>value\<close> is
  \<open>w\<close>, and exactly one persistence call was made.
\<close>

theorem addWord_success:
  assumes "w \<noteq> []"
    and "Word_new (Some (JStr w)) s = (newWord, s1)"
    and "save newWord s1 = (Inr (), s2)"
  shows "addWord (word_request w) s =
           (\<lparr>status = 200, body = JsonBody (JObj [(''message'', JStr ''Word added successfully'')])\<rparr>, s2)
         \<and> docs s2 = docs s @ [\<lparr>doc_id = new_id newWord, doc_value = w\<rparr>]
         \<and> calls s2 = calls s @ [SaveCall (new_id newWord)]"
proof -
  have t: "truthy (body_word (word_request w))" using assms(1) by simp
  have n: "Word_new (body_word (word_request w)) s = (newWord, s1)" using assms(2) by simp
  have a: "addWord (word_request w) s =
           (\<lparr>status = 200, body = JsonBody (JObj [(''message'', JStr ''Word added successfully'')])\<rparr>, s2)"
    using addWord_truthy [OF t n assms(3)] by simp
  have e: "new_value newWord = Cast (Some w)" "docs s1 = docs s" "calls s1 = calls s"
    using Word_new_eq [OF assms(2)] by simp_all
  have d: "docs s2 = docs s @ [\<lparr>doc_id = new_id newWord, doc_value = w\<rparr>]"
    using save_docs [OF assms(3)] e by auto
  have c: "calls s2 = calls s @ [SaveCall (new_id newWord)]"
    using save_rest [OF assms(3)] e by simp
  from a d c show ?thesis by simp
qed

theorem addWord_success_witness:
  "addWord (word_request ''testword'') empty_store =
     (\<lparr>status = 200, body = JsonBody (JObj [(''message'', JStr ''Word added successfully'')])\<rparr>,
      \<lparr>docs = [\<lparr>doc_id = 0, doc_value = ''testword''\<rparr>], next_id = 1, fault = None, console = [],
       calls = [SaveCall 0]\<rparr>)"
  using addWord_success [of "''testword''" empty_store
      "\<lparr>new_id = 0, new_value = Cast (Some ''testword'')\<rparr>"
      "\<lparr>docs = [], next_id = 1, fault = None, console = [], calls = []\<rparr>"
      "\<lparr>docs = [\<lparr>doc_id = 0, doc_value = ''testword''\<rparr>], next_id = 1, fault = None, console = [],
       calls = [SaveCall 0]\<rparr>"]
  by (simp add: empty_store_def Word_new_def save_def)

text \<open>
  C5. When the word passes the presence check and the save fails with an error \<open>err\<close>,
  the handler answers status 500 with the fixed body \<^verbatim>\<open>{error: "Error adding word"}\<close>
  (the same for every \<open>err\<close>), the pair of the message \<^verbatim>\<open>Error adding word:\<close> and
  \<open>err\<close> is appended to the error log, and the collection is unchanged.
\<close>

theorem addWord_persistence_failure:
  assumes "truthy (body_word b)"
    and "Word_new (body_word b) s = (newWord, s1)"
    and "save newWord s1 = (Inl err, s2)"
  shows "addWord b s =
           (\<lparr>status = 500, body = JsonBody (JObj [(''error'', JStr ''Error adding word'')])\<rparr>,
            s2\<lparr>console := console s @ [(''Error adding word:'', err)]\<rparr>)
         \<and> docs s2 = docs s"
proof -
  have e: "docs s1 = docs s" "console s1 = console s"
    using Word_new_eq [OF assms(2)] by simp_all
  have d: "docs s2 = docs s" using save_docs [OF assms(3)] e by simp
  have c: "console s2 = console s" using save_rest [OF assms(3)] e by simp
  show ?thesis using addWord_truthy [OF assms] d c by (simp add: console_error_def)
qed

theorem addWord_persistence_failure_witness:
  "addWord (word_request ''testword'') (empty_store\<lparr>fault := Some ''unreachable''\<rparr>) =
     (\<lparr>status = 500, body = JsonBody (JObj [(''error'', JStr ''Error adding word'')])\<rparr>,
      \<lparr>docs = [], next_id = 1, fault = Some ''unreachable'',
       console = [(''Error adding word:'', DriverError ''unreachable'')],
       calls = [SaveCall 0]\<rparr>)"
  using addWord_persistence_failure [of "word_request ''testword''"
      "empty_store\<lparr>fault := Some ''unreachable''\<rparr>"
      "\<lparr>new_id = 0, new_value = Cast (Some ''testword'')\<rparr>"
      "\<lparr>docs = [], next_id = 1, fault = Some ''unreachable'', console = [], calls = []\<rparr>"
      "DriverError ''unreachable''"
      "\<lparr>docs = [], next_id = 1, fault = Some ''unreachable'', console = [], calls = [SaveCall 0]\<rparr>"]
  by (simp add: empty_store_def Word_new_def save_def)


lemma find_all_eq:
  "find_all s = (r, s1) \<Longrightarrow>
   s1 = s\<lparr>calls := calls s @ [FindCall]\<rparr>
   \<and> (case r of Inr ws \<Rightarrow> ws = docs s \<and> fault s = None | Inl e \<Rightarrow> (\<exists>msg. fault s = Some msg \<and> e = DriverError msg))"
  by (auto simp: find_all_def Let_def split: option.splits)

lemma toHexString_0: "toHexString 0 = ''000000000000000000000000''"
  by code_simp

text \<open>
  C6 (amended). When the retrieval succeeds, the listing handler answers status 200 with
  the array of all stored records in the order of the store; each element carries the
  \<^verbatim>\<open>value\<close> of its record and the identifier the store assigned under the key
  \<^verbatim>\<open>_id\<close>, and has no key \<^verbatim>\<open>id\<close>; on an empty collection the array is empty.
\<close>

theorem viewWords_success:
  assumes "find_all s = (Inr words, s1)"
  shows "viewWords s = (\<lparr>status = 200, body = JsonBody (JArr (map toJSON words))\<rparr>, s1)
         \<and> words = docs s
         \<and> (\<forall>d \<in> set words.
               json_field ''value'' (toJSON d) = Some (JStr (doc_value d))
               \<and> json_field ''_id'' (toJSON d) = Some (JStr (toHexString (doc_id d)))
               \<and> json_field ''id'' (toJSON d) = None)
         \<and> (docs s = [] \<longrightarrow> body (fst (viewWords s)) = JsonBody (JArr []))"
proof -
  have v: "viewWords s = (\<lparr>status = 200, body = JsonBody (JArr (map toJSON words))\<rparr>, s1)"
    using assms by (simp add: viewWords_def res_json_def HTTP_OK_def)
  have w: "words = docs s" using find_all_eq [OF assms] by simp
  have f: "\<forall>d \<in> set words.
               json_field ''value'' (toJSON d) = Some (JStr (doc_value d))
               \<and> json_field ''_id'' (toJSON d) = Some (JStr (toHexString (doc_id d)))
               \<and> json_field ''id'' (toJSON d) = None"
    by (simp add: json_field_def toJSON_def)
  from v w f show ?thesis by simp
qed

theorem viewWords_success_witness:
  "viewWords \<lparr>docs = [\<lparr>doc_id = 0, doc_value = ''testword''\<rparr>], next_id = 1, fault = None,
              console = [], calls = []\<rparr>
     = (\<lparr>status = 200,
         body = JsonBody (JArr [JObj [(''_id'', JStr ''000000000000000000000000''),
                                      (''value'', JStr ''testword''), (''__v'', JNum 0)]])\<rparr>,
        \<lparr>docs = [\<lparr>doc_id = 0, doc_value = ''testword''\<rparr>], next_id = 1, fault = None,
         console = [], calls = [FindCall]\<rparr>)
   \<and> viewWords empty_store
     = (\<lparr>status = 200, body = JsonBody (JArr [])\<rparr>, empty_store\<lparr>calls := [FindCall]\<rparr>)"
  using viewWords_success [of
      "\<lparr>docs = [\<lparr>doc_id = 0, doc_value = ''testword''\<rparr>], next_id = 1, fault = None,
        console = [], calls = []\<rparr>"
      "[\<lparr>doc_id = 0, doc_value = ''testword''\<rparr>]"
      "\<lparr>docs = [\<lparr>doc_id = 0, doc_value = ''testword''\<rparr>], next_id = 1, fault = None,
        console = [], calls = [FindCall]\<rparr>"]
    viewWords_success [of empty_store "[]" "empty_store\<lparr>calls := [FindCall]\<rparr>"]
  by (simp add: find_all_def empty_store_def toJSON_def toHexString_0)

text \<open>
  C6 as stated names the identifier \<^verbatim>\<open>id\<close>. The listing of a collection of one record
  has one element, with the keys \<^verbatim>\<open>_id\<close>, \<^verbatim>\<open>value\<close> and \<^verbatim>\<open>__v\<close>, and no key
  \<^verbatim>\<open>id\<close>.
\<close>

theorem listing_id_counterexample:
  "listing_of (fst (viewWords \<lparr>docs = [\<lparr>doc_id = 0, doc_value = ''testword''\<rparr>], next_id = 1,
                               fault = None, console = [], calls = []\<rparr>))
     = Some [JObj [(''_id'', JStr ''000000000000000000000000''),
                   (''value'', JStr ''testword''), (''__v'', JNum 0)]]
   \<and> json_field ''id'' (JObj [(''_id'', JStr ''000000000000000000000000''),
                              (''value'', JStr ''testword''), (''__v'', JNum 0)]) = None"
  by (simp add: viewWords_ok listing_of_def toJSON_def toHexString_0 json_field_def)

text \<open>
  C7. When the retrieval fails with an error \<open>err\<close>, the listing handler answers status
  500 with the fixed body \<^verbatim>\<open>{error: "Error fetching words"}\<close> (the same for every
  \<open>err\<close>), the pair of the message \<^verbatim>\<open>Error fetching words:\<close> and \<open>err\<close> is appended to
  the error log, and the collection is unchanged.
\<close>

theorem viewWords_failure:
  assumes "find_all s = (Inl err, s1)"
  shows "viewWords s =
           (\<lparr>status = 500, body = JsonBody (JObj [(''error'', JStr ''Error fetching words'')])\<rparr>,
            s1\<lparr>console := console s @ [(''Error fetching words:'', err)]\<rparr>)
         \<and> docs s1 = docs s"
  using assms find_all_eq [OF assms]
  by (simp add: viewWords_def res_json_def HTTP_INTERNAL_SERVER_ERROR_def console_error_def)

theorem viewWords_failure_witness:
  "viewWords (empty_store\<lparr>fault := Some ''unreachable''\<rparr>) =
     (\<lparr>status = 500, body = JsonBody (JObj [(''error'', JStr ''Error fetching words'')])\<rparr>,
      \<lparr>docs = [], next_id = 0, fault = Some ''unreachable'',
       console = [(''Error fetching words:'', DriverError ''unreachable'')],
       calls = [FindCall]\<rparr>)"
  using viewWords_failure [of "empty_store\<lparr>fault := Some ''unreachable''\<rparr>"
      "DriverError ''unreachable''"
      "\<lparr>docs = [], next_id = 0, fault = Some ''unreachable'', console = [], calls = [FindCall]\<rparr>"]
  by (simp add: find_all_def empty_store_def)


lemma Number_toString_0: "Number_toString 0 = ''0''"
  by code_simp

lemma app_docs:
  "docs (snd (app req s)) = docs s
   \<or> (\<exists>d. docs (snd (app req s)) = docs s @ [d] \<and> doc_value d \<noteq> []
          \<and> status (fst (app req s)) = 200 \<and> req_method req = POST)"
proof (cases "strip_mount ''/api'' (req_path req)")
  case None
  then show ?thesis by (simp add: app_def)
next
  case (Some p)
  show ?thesis
  proof (cases "req_method req = POST \<and> route_matches ''/addWord'' p")
    case True
    with Some have "app req s = addWord (req_body req) s" by (simp add: app_def wordRoutes_def)
    with True addWord_docs [of "req_body req" s] show ?thesis by auto
  next
    case False
    with Some have "docs (snd (app req s)) = docs s"
      by (auto simp: app_def wordRoutes_def viewWords_docs)
    then show ?thesis by simp
  qed
qed

lemma serve_docs:
  "\<exists>new. docs (snd (serve reqs s)) = docs s @ new \<and> list_all (\<lambda>d. doc_value d \<noteq> []) new"
proof (induction reqs arbitrary: s)
  case Nil
  show ?case by simp
next
  case (Cons req reqs)
  obtain r s1 where a: "app req s = (r, s1)" by (cases "app req s")
  obtain new1 where n1: "docs s1 = docs s @ new1" "list_all (\<lambda>d. doc_value d \<noteq> []) new1"
    using app_docs [of req s] a by auto
  obtain new2 where n2: "docs (snd (serve reqs s1)) = docs s1 @ new2"
      "list_all (\<lambda>d. doc_value d \<noteq> []) new2"
    using Cons.IH [of s1] by auto
  have "docs (snd (serve (req # reqs) s)) = docs s @ (new1 @ new2)"
    using a n1 n2 by (simp add: split_beta)
  moreover have "list_all (\<lambda>d. doc_value d \<noteq> []) (new1 @ new2)"
    using n1 n2 by simp
  ultimately show ?case by blast
qed

text \<open>
  C8. If every stored record has a non-empty \<^verbatim>\<open>value\<close>, then so it is after any request
  served by the application and after any sequence of requests. A request either leaves
  the collection as it was or appends one record, and it appends only when it is a POST
  answered 200; after any sequence of requests the old collection is a prefix of the new
  one, so no record is ever changed or removed.
\<close>

theorem records_invariant:
  assumes "values_nonempty s"
  shows "values_nonempty (snd (app req s))
         \<and> (docs (snd (app req s)) = docs s
            \<or> (\<exists>d. docs (snd (app req s)) = docs s @ [d]
                   \<and> status (fst (app req s)) = 200 \<and> req_method req = POST))
         \<and> values_nonempty (snd (serve reqs s))
         \<and> (\<exists>new. docs (snd (serve reqs s)) = docs s @ new)"
proof -
  have 1: "values_nonempty (snd (app req s))"
    using app_docs [of req s] assms by (auto simp: values_nonempty_def)
  have 2: "docs (snd (app req s)) = docs s
            \<or> (\<exists>d. docs (snd (app req s)) = docs s @ [d]
                   \<and> status (fst (app req s)) = 200 \<and> req_method req = POST)"
    using app_docs [of req s] by blast
  have 3: "values_nonempty (snd (serve reqs s))"
    using serve_docs [of reqs s] assms by (auto simp: values_nonempty_def)
  have 4: "\<exists>new. docs (snd (serve reqs s)) = docs s @ new"
    using serve_docs [of reqs s] by blast
  from 1 2 3 4 show ?thesis by blast
qed

theorem records_invariant_witness:
  "values_nonempty empty_store
   \<and> values_nonempty (snd (serve [\<lparr>req_method = POST, req_path = ''/api/addWord'',
                                     req_body = word_request ''testword''\<rparr>,
                                   \<lparr>req_method = POST, req_path = ''/api/addWord'',
                                     req_body = BodyObject []\<rparr>,
                                   \<lparr>req_method = GET, req_path = ''/api/viewWords'',
                                     req_body = BodyObject []\<rparr>] empty_store))
   \<and> docs (snd (serve [\<lparr>req_method = POST, req_path = ''/api/addWord'',
                         req_body = word_request ''testword''\<rparr>,
                       \<lparr>req_method = POST, req_path = ''/api/addWord'',
                         req_body = BodyObject []\<rparr>,
                       \<lparr>req_method = GET, req_path = ''/api/viewWords'',
                         req_body = BodyObject []\<rparr>] empty_store))
       = [\<lparr>doc_id = 0, doc_value = ''testword''\<rparr>]"
proof -
  have e: "values_nonempty empty_store"
    by (simp add: values_nonempty_def empty_store_def)
  have f: "fault empty_store = None" "docs empty_store = []" "next_id empty_store = 0"
    by (simp_all add: empty_store_def)
  have d: "docs (snd (serve [\<lparr>req_method = POST, req_path = ''/api/addWord'',
                         req_body = word_request ''testword''\<rparr>,
                       \<lparr>req_method = POST, req_path = ''/api/addWord'',
                         req_body = BodyObject []\<rparr>,
                       \<lparr>req_method = GET, req_path = ''/api/viewWords'',
                         req_body = BodyObject []\<rparr>] empty_store))
       = [\<lparr>doc_id = 0, doc_value = ''testword''\<rparr>]"
    by (simp add: app_post_addWord app_get_viewWords addWord_word_ok addWord_falsy
        viewWords_docs f split_beta)
  from records_invariant [OF e] e d show ?thesis by blast
qed

text \<open>
  The identifiers of two records saved one after the other are rendered differently:
  the last hexadecimal digit changes.
\<close>

lemma hex_digit_inj:
  "i < 16 \<Longrightarrow> j < 16 \<Longrightarrow> ''0123456789abcdef'' ! i = ''0123456789abcdef'' ! j \<Longrightarrow> i = j"
proof -
  assume b: "i < 16" "j < 16" and e: "''0123456789abcdef'' ! i = ''0123456789abcdef'' ! j"
  have d: "distinct ''0123456789abcdef''" by simp
  from b have "i < length ''0123456789abcdef''" "j < length ''0123456789abcdef''" by simp_all
  with d e show "i = j" by (simp only: nth_eq_iff_index_eq)
qed

lemma mod16_Suc: "n mod 16 \<noteq> Suc n mod (16::nat)"
  by (simp add: mod_Suc)

lemma hex_Suc_neq: "hex (Suc k) n \<noteq> hex (Suc k) (Suc n)"
proof
  assume "hex (Suc k) n = hex (Suc k) (Suc n)"
  then have "''0123456789abcdef'' ! (n mod 16) = ''0123456789abcdef'' ! (Suc n mod 16)"
    by (simp only: hex.simps append1_eq_conv)
  then have "n mod 16 = Suc n mod 16"
    by (rule hex_digit_inj [rotated 2]) simp_all
  then show False using mod16_Suc by blast
qed

lemma toHexString_Suc_neq: "toHexString n \<noteq> toHexString (Suc n)"
proof -
  have "(24::nat) = Suc 23" by simp
  then show ?thesis
    unfolding toHexString_def by (simp only: hex_Suc_neq not_False_eq_True)
qed

lemma toHexString_1: "toHexString 1 = ''000000000000000000000001''"
  by code_simp

text \<open>
  C9. For a non-empty word \<open>w\<close>, two insertion requests with \<open>w\<close>, both answered 200,
  append two records with different identifiers and the same \<^verbatim>\<open>value\<close> \<open>w\<close>, and a
  listing answered 200 after them ends with two different elements, each an object with
  the \<^verbatim>\<open>value\<close> \<open>w\<close>, and with different \<^verbatim>\<open>_id\<close>s: the serialisations of the two
  records, after those of the records that were there before.
\<close>

theorem no_deduplication:
  assumes "w \<noteq> []"
    and "addWord (word_request w) s = (r1, s1)" and "status r1 = 200"
    and "addWord (word_request w) s1 = (r2, s2)" and "status r2 = 200"
    and "viewWords s2 = (r3, s3)" and "status r3 = 200"
  shows "\<exists>d1 d2 x1 x2.
           docs s2 = docs s @ [d1, d2]
           \<and> doc_id d1 \<noteq> doc_id d2 \<and> doc_value d1 = w \<and> doc_value d2 = w
           \<and> body r3 = JsonBody (JArr (map toJSON (docs s) @ [x1, x2]))
           \<and> x1 = toJSON d1 \<and> x2 = toJSON d2
           \<and> x1 = JObj [(''_id'', JStr (toHexString (doc_id d1))), (''value'', JStr w),
                         (''__v'', JNum 0)]
           \<and> x2 = JObj [(''_id'', JStr (toHexString (doc_id d2))), (''value'', JStr w),
                         (''__v'', JNum 0)]
           \<and> has_value w x1 \<and> has_value w x2
           \<and> json_field ''_id'' x1 \<noteq> json_field ''_id'' x2
           \<and> x1 \<noteq> x2"
proof -
  have f: "fault s = None"
  proof (cases "fault s")
    case (Some msg)
    with assms(1,2,3) addWord_word_fault [of w s msg] show ?thesis by auto
  qed simp
  have s1: "s1 = s\<lparr>next_id := Suc (next_id s), calls := calls s @ [SaveCall (next_id s)],
                   docs := docs s @ [\<lparr>doc_id = next_id s, doc_value = w\<rparr>]\<rparr>"
    using addWord_word_ok [OF assms(1) f] assms(2) by simp
  then have f1: "fault s1 = None" using f by simp
  let ?d1 = "\<lparr>doc_id = next_id s, doc_value = w\<rparr>"
  let ?d2 = "\<lparr>doc_id = Suc (next_id s), doc_value = w\<rparr>"
  have s2: "docs s2 = docs s @ [?d1, ?d2]"
       and f2: "fault s2 = None"
    using addWord_word_ok [OF assms(1) f1] assms(4) s1 f1 by auto
  have "body r3 = JsonBody (JArr (map toJSON (docs s2)))"
    using viewWords_ok [OF f2] assms(6) by auto
  with s2 have b: "body r3 = JsonBody (JArr (map toJSON (docs s) @ [toJSON ?d1, toJSON ?d2]))"
    by simp
  have j1: "toJSON ?d1 = JObj [(''_id'', JStr (toHexString (doc_id ?d1))), (''value'', JStr w),
                              (''__v'', JNum 0)]"
    and j2: "toJSON ?d2 = JObj [(''_id'', JStr (toHexString (doc_id ?d2))), (''value'', JStr w),
                              (''__v'', JNum 0)]"
    by (simp_all add: toJSON_def)
  have v: "has_value w (toJSON ?d1)" "has_value w (toJSON ?d2)"
    by (simp_all add: has_value_def json_field_def toJSON_def)
  have i: "json_field ''_id'' (toJSON ?d1) \<noteq> json_field ''_id'' (toJSON ?d2)"
    by (simp add: json_field_def toJSON_def toHexString_Suc_neq)
  then have n: "toJSON ?d1 \<noteq> toJSON ?d2" by auto
  have r: "doc_id ?d1 \<noteq> doc_id ?d2" "doc_value ?d1 = w" "doc_value ?d2 = w" by simp_all
  show ?thesis
    apply (rule exI [of _ ?d1])
    apply (rule exI [of _ ?d2])
    apply (rule exI [of _ "toJSON ?d1"])
    apply (rule exI [of _ "toJSON ?d2"])
    apply (intro conjI)
    apply (rule s2 r b refl j1 j2 v i n)+
    done
qed

theorem no_deduplication_witness:
  "docs (snd (addWord (word_request ''testword'')
                (snd (addWord (word_request ''testword'') empty_store))))
     = [\<lparr>doc_id = 0, doc_value = ''testword''\<rparr>, \<lparr>doc_id = 1, doc_value = ''testword''\<rparr>]
   \<and> status (fst (viewWords (snd (addWord (word_request ''testword'')
                (snd (addWord (word_request ''testword'') empty_store)))))) = 200
   \<and> body (fst (viewWords (snd (addWord (word_request ''testword'')
                (snd (addWord (word_request ''testword'') empty_store))))))
     = JsonBody (JArr [JObj [(''_id'', JStr ''000000000000000000000000''),
                             (''value'', JStr ''testword''), (''__v'', JNum 0)],
                       JObj [(''_id'', JStr ''000000000000000000000001''),
                             (''value'', JStr ''testword''), (''__v'', JNum 0)]])"
proof -
  let ?ok = "\<lparr>status = 200, body = JsonBody (JObj [(''message'', JStr ''Word added successfully'')])\<rparr>"
  let ?s1 = "\<lparr>docs = [\<lparr>doc_id = 0, doc_value = ''testword''\<rparr>], next_id = 1, fault = None,
              console = [], calls = [SaveCall 0]\<rparr>"
  let ?s2 = "\<lparr>docs = [\<lparr>doc_id = 0, doc_value = ''testword''\<rparr>, \<lparr>doc_id = 1, doc_value = ''testword''\<rparr>],
              next_id = 2, fault = None, console = [], calls = [SaveCall 0, SaveCall 1]\<rparr>"
  have ne: "''testword'' \<noteq> []" by simp
  have ok: "status ?ok = 200" by simp
  have e1: "addWord (word_request ''testword'') empty_store = (?ok, ?s1)"
    by (simp add: addWord_word_ok empty_store_def)
  have e2: "addWord (word_request ''testword'') ?s1 = (?ok, ?s2)"
    by (simp add: addWord_word_ok)
  have e3: "viewWords ?s2 = (fst (viewWords ?s2), snd (viewWords ?s2))"
    by simp
  have st: "status (fst (viewWords ?s2)) = 200"
    by (simp add: viewWords_ok)
  have em: "docs empty_store = []"
    by (simp add: empty_store_def)
  from no_deduplication [OF ne e1 ok e2 ok e3 st]
  obtain d1 d2 x1 x2 where
    d: "docs ?s2 = docs empty_store @ [d1, d2]" and
    b: "body (fst (viewWords ?s2)) = JsonBody (JArr (map toJSON (docs empty_store) @ [x1, x2]))" and
    x1: "x1 = JObj [(''_id'', JStr (toHexString (doc_id d1))), (''value'', JStr ''testword''),
                   (''__v'', JNum 0)]" and
    x2: "x2 = JObj [(''_id'', JStr (toHexString (doc_id d2))), (''value'', JStr ''testword''),
                   (''__v'', JNum 0)]"
    by blast
  from d em have dd: "d1 = \<lparr>doc_id = 0, doc_value = ''testword''\<rparr>"
      "d2 = \<lparr>doc_id = 1, doc_value = ''testword''\<rparr>"
    by simp_all
  have bb: "body (fst (viewWords ?s2))
      = JsonBody (JArr [JObj [(''_id'', JStr ''000000000000000000000000''),
                              (''value'', JStr ''testword''), (''__v'', JNum 0)],
                        JObj [(''_id'', JStr ''000000000000000000000001''),
                              (''value'', JStr ''testword''), (''__v'', JNum 0)]])"
    using b x1 x2 dd em toHexString_0 toHexString_1 by simp
  have q1: "snd (addWord (word_request ''testword'') empty_store) = ?s1"
    by (simp only: e1 snd_conv)
  have q2: "snd (addWord (word_request ''testword'') ?s1) = ?s2"
    by (simp only: e2 snd_conv)
  show ?thesis
    unfolding q1 q2 using st bb by simp
qed

text \<open>
  C10. The presence check is JavaScript falsiness: the falsy words are exactly the absent
  field, the empty string, \<^verbatim>\<open>null\<close>, \<^verbatim>\<open>false\<close> and the number 0, and a request whose
  word is one of them is answered status 400 with \<^verbatim>\<open>{error: "Word is required"}\<close> and
  returns the state it was given (no persistence call), although 0 and \<^verbatim>\<open>false\<close> would
  be cast to the non-empty strings \<^verbatim>\<open>0\<close> and \<^verbatim>\<open>false\<close>.
\<close>

theorem falsy_word_rejected:
  assumes "body_word b \<in> {None, Some (JStr []), Some JNull, Some (JBool False), Some (JNum 0)}"
  shows "addWord b s =
           (\<lparr>status = 400, body = JsonBody (JObj [(''error'', JStr ''Word is required'')])\<rparr>, s)
         \<and> (\<not> truthy v \<longleftrightarrow> v \<in> {None, Some (JStr []), Some JNull, Some (JBool False), Some (JNum 0)})
         \<and> castString (Some (JNum 0)) = Cast (Some ''0'')
         \<and> castString (Some (JBool False)) = Cast (Some ''false'')"
proof -
  have t: "\<not> truthy v \<longleftrightarrow> v \<in> {None, Some (JStr []), Some JNull, Some (JBool False), Some (JNum 0)}"
    for v by (cases v rule: truthy.cases) auto
  from assms t [of "body_word b"] have "\<not> truthy (body_word b)" by blast
  then have "addWord b s =
           (\<lparr>status = 400, body = JsonBody (JObj [(''error'', JStr ''Word is required'')])\<rparr>, s)"
    by (rule addWord_falsy)
  with t [of v] show ?thesis by (simp add: Number_toString_0 Boolean_toString_def)
qed


theorem falsy_word_rejected_witness:
  "addWord (BodyObject [(''word'', JNum 0)]) empty_store =
     (\<lparr>status = 400, body = JsonBody (JObj [(''error'', JStr ''Word is required'')])\<rparr>, empty_store)
   \<and> addWord (BodyObject [(''word'', JBool False)]) empty_store =
     (\<lparr>status = 400, body = JsonBody (JObj [(''error'', JStr ''Word is required'')])\<rparr>, empty_store)
   \<and> addWord (BodyObject [(''word'', JNull)]) empty_store =
     (\<lparr>status = 400, body = JsonBody (JObj [(''error'', JStr ''Word is required'')])\<rparr>, empty_store)"
  using falsy_word_rejected [of "BodyObject [(''word'', JNum 0)]" empty_store None]
    falsy_word_rejected [of "BodyObject [(''word'', JBool False)]" empty_store None]
    falsy_word_rejected [of "BodyObject [(''word'', JNull)]" empty_store None]
  by simp

end
